theory Spec2Isabelle
  imports Complex_Main
begin

section \<open>Numbers: \<^verbatim>\<open>Decimal\<close>, \<^verbatim>\<open>REAL\<close> and the conversions between them\<close>

text \<open>
  The Python code computes with \<^verbatim>\<open>Decimal\<close>; the columns \<^verbatim>\<open>balance\<close>, \<^verbatim>\<open>amount\<close>, \<^verbatim>\<open>price\<close> and
  those of \<^verbatim>\<open>balance_history\<close> are declared \<^verbatim>\<open>REAL\<close>, so SQLite keeps binary64 numbers and
  adds in binary64. Every number of the model is the exact rational value of what the
  code holds, and each conversion the code makes is a function:
  \<^item> \<open>binary64\<close>: the nearest double, ties to even, as IEEE 754 addition rounds;
  \<^item> \<open>decimal_context\<close>: the rounding of Python's default \<^verbatim>\<open>Decimal\<close> context (28
    significant digits, half even) that \<^verbatim>\<open>+\<close> and unary \<^verbatim>\<open>-\<close> apply;
  \<^item> \<open>py_decimal\<close>: \<^verbatim>\<open>Decimal(str(x))\<close> of a \<^verbatim>\<open>float\<close> read from a \<^verbatim>\<open>REAL\<close> column, the
    shortest decimal that \<^verbatim>\<open>float\<close> reads back as \<open>x\<close>;
  \<^item> the conversion of a bound text \<^verbatim>\<open>str(d)\<close> to \<^verbatim>\<open>REAL\<close> is SQLite's own routine, which
    is not always the nearest double and differs between versions: it is a component of
    the store (\<open>real_of_text\<close> below), fixed but not defined here.
  Infinities and NaN are not modelled: amounts stay below \<open>2 ^ 1024\<close> in magnitude.
\<close>

text \<open>The number of digits of a positive integer in a base.\<close>

function ndigits :: "int \<Rightarrow> int \<Rightarrow> nat" where
  "ndigits base n = (if n \<le> 0 \<or> base < 2 then 0 else Suc (ndigits base (n div base)))"
  by pat_completeness auto
termination
  by (relation "measure (\<lambda>(base, n). nat n)") (auto intro: int_div_less_self)

declare ndigits.simps [simp del]

text \<open>For \<open>x > 0\<close>: the exponent \<open>e\<close> with \<open>base ^ e \<le> x < base ^ (e + 1)\<close>.\<close>

definition floor_log :: "int \<Rightarrow> rat \<Rightarrow> int" where
  "floor_log base x =
     (if 1 \<le> x then int (ndigits base \<lfloor>x\<rfloor>) - 1
      else - int (ndigits base (\<lceil>1 / x\<rceil> - 1)))"

definition scale :: "int \<Rightarrow> int \<Rightarrow> rat" where
  "scale base p = (if 0 \<le> p then of_int base ^ nat p else 1 / of_int base ^ nat (- p))"

definition round_half_even :: "rat \<Rightarrow> int" where
  "round_half_even q =
     (let f = \<lfloor>q\<rfloor>; r = q - of_int f in
      if r < 1 / 2 then f else if 1 / 2 < r then f + 1 else if even f then f else f + 1)"

text \<open>
  Rounding to \<open>prec\<close> significant digits in a base, half even, with a smallest exponent
  \<open>emin\<close> for the last digit.
\<close>

definition round_sig :: "int \<Rightarrow> nat \<Rightarrow> int \<Rightarrow> rat \<Rightarrow> rat" where
  "round_sig base prec emin x =
     (if x = 0 then 0
      else let a = \<bar>x\<bar>;
               p = max (floor_log base a - (int prec - 1)) emin
           in sgn x * of_int (round_half_even (a / scale base p)) * scale base p)"

definition binary64 :: "rat \<Rightarrow> rat" where
  "binary64 x = round_sig 2 53 (- 1074) x"

definition decimal_context :: "rat \<Rightarrow> rat" where
  "decimal_context x = round_sig 10 28 (- 1000026) x"

text \<open>
  \<^verbatim>\<open>str\<close> of a \<^verbatim>\<open>float\<close> prints the shortest digit string that reads back as the same
  \<^verbatim>\<open>float\<close>, and of those the closest. For \<open>n\<close> digits the two neighbours of \<open>a\<close> are tried,
  the closer first (on a tie the one with the even last digit).
\<close>

definition repr_candidates :: "nat \<Rightarrow> rat \<Rightarrow> rat list" where
  "repr_candidates n a =
     (let unit = scale 10 (floor_log 10 a - (int n - 1));
          m = \<lfloor>a / unit\<rfloor>;
          lo = of_int m * unit;
          hi = lo + unit
      in filter (\<lambda>c. binary64 c = a)
           (if a - lo < hi - a \<or> (a - lo = hi - a \<and> even m) then [lo, hi] else [hi, lo]))"

function shortest_repr :: "nat \<Rightarrow> rat \<Rightarrow> rat" where
  "shortest_repr n a =
     (if 17 < n then a
      else (case repr_candidates n a of
              c # cs \<Rightarrow> c
            | [] \<Rightarrow> shortest_repr (Suc n) a))"
  by pat_completeness auto
termination
  by (relation "measure (\<lambda>(n, a). 18 - n)") auto

declare shortest_repr.simps [simp del]

definition py_decimal :: "rat \<Rightarrow> rat" where
  "py_decimal x = (if x = 0 then 0 else sgn x * shortest_repr 1 \<bar>x\<bar>)"

section \<open>The store: tables of \<^verbatim>\<open>database.py\<close>\<close>

text \<open>
  The bot keeps its ledger in five SQLite tables (\<^verbatim>\<open>Database.init_db\<close>). Every method of
  \<^verbatim>\<open>Database\<close> opens a connection, runs \<^verbatim>\<open>BEGIN TRANSACTION\<close> ... \<^verbatim>\<open>COMMIT\<close>, and on any
  exception runs \<^verbatim>\<open>ROLLBACK\<close> and reports failure. A method is therefore a function from
  the store to a result and a store: the updated store after \<^verbatim>\<open>COMMIT\<close>, the store it
  was given after \<^verbatim>\<open>ROLLBACK\<close>. Calls are taken one after the other.

  Columns that no modelled method reads (\<^verbatim>\<open>username\<close>, \<^verbatim>\<open>updated_at\<close>, \<^verbatim>\<open>completed_at\<close>, ...)
  are left out; \<^verbatim>\<open>created_at\<close> of a transaction is kept, as the clean-up compares it.

  \<^verbatim>\<open>PRAGMA foreign_keys = ON\<close> is issued only on the connection of \<^verbatim>\<open>init_db\<close>; the
  connections of \<^verbatim>\<open>get_connection\<close> never issue it, so no foreign key is enforced
  and a row may name a user that has no row in \<^verbatim>\<open>users\<close>. The \<^verbatim>\<open>CHECK\<close> constraints are
  enforced on every connection.
\<close>

text \<open>Python values that reach the store through \<^verbatim>\<open>**kwargs\<close>.\<close>

datatype pyval =
    PyNone
  | PyInt int
  | PyStr string
  | PyDecimal rat
  | PyDict "(string \<times> pyval) list"

text \<open>
  \<^verbatim>\<open>json.dumps\<close> raises \<^verbatim>\<open>TypeError\<close> on a \<^verbatim>\<open>Decimal\<close>, also inside a dictionary.
\<close>

primrec json_dumps_ok :: "pyval \<Rightarrow> bool" where
  "json_dumps_ok PyNone = True"
| "json_dumps_ok (PyInt i) = True"
| "json_dumps_ok (PyStr s) = True"
| "json_dumps_ok (PyDecimal d) = False"
| "json_dumps_ok (PyDict kvs) = list_all snd (map (map_prod id json_dumps_ok) kvs)"

text \<open>
  \<^verbatim>\<open>sqlite3\<close> binds \<^verbatim>\<open>None\<close>, integers and strings as parameters; a \<^verbatim>\<open>Decimal\<close> or a
  dictionary has no adapter and raises.
\<close>

fun sqlite_bindable :: "pyval \<Rightarrow> bool" where
  "sqlite_bindable (PyDecimal d) = False"
| "sqlite_bindable (PyDict kvs) = False"
| "sqlite_bindable v = True"

text \<open>
  A row of \<^verbatim>\<open>transactions\<close>, without its key \<^verbatim>\<open>tx_id\<close>. \<open>t_amount\<close> is the \<^verbatim>\<open>REAL\<close> the
  column holds. The columns \<^verbatim>\<open>original_amount\<close> and \<^verbatim>\<open>exchange_rate\<close> receive \<^verbatim>\<open>str(v)\<close> of
  a Python value \<open>v\<close>; the row keeps \<open>v\<close> itself, so \<open>PyInt 1\<close> there stands for the text
  \<^verbatim>\<open>'1'\<close> and \<open>PyNone\<close> for \<^verbatim>\<open>'None'\<close>. \<^verbatim>\<open>payment_details\<close> likewise keeps the value given to
  \<^verbatim>\<open>json.dumps\<close>. Timestamps are the texts SQLite stores and compares.
\<close>

record tx_row =
  t_user_id :: int
  t_amount :: rat
  t_type :: string
  t_payment_method :: string
  t_payment_details :: pyval
  t_payment_subtype :: "string option"
  t_payment_number :: "string option"
  t_original_amount :: pyval
  t_original_currency :: pyval
  t_exchange_rate :: pyval
  t_created_at :: string
  t_status :: string
  t_reject_reason :: "string option"
  t_admin_id :: "int option"

text \<open>A row of \<^verbatim>\<open>orders\<close>, without its key \<^verbatim>\<open>order_id\<close>; \<^verbatim>\<open>amount\<close> holds the game id.\<close>

record order_row =
  o_user_id :: int
  o_product_type :: string
  o_product_id :: string
  o_amount :: string
  o_price :: rat
  o_status :: string

record history_row =
  h_user_id :: int
  h_old_balance :: rat
  h_new_balance :: rat
  h_change_amount :: rat
  h_transaction_type :: string
  h_admin_id :: int

text \<open>
  The \<^verbatim>\<open>details\<close> text of an \<^verbatim>\<open>admin_logs\<close> row is an f-string; the model keeps the
  values it interpolates.
\<close>

datatype log_details =
    Confirmed_transaction string
  | Rejected_transaction string string
  | Modified_balance rat
  | Updated_order nat string
  | Rejected_order nat

record log_row =
  l_admin_id :: int
  l_action :: string
  l_details :: log_details
  l_target_user_id :: "int option"

text \<open>
  \<open>users\<close> maps a \<^verbatim>\<open>user_id\<close> to the \<^verbatim>\<open>balance\<close> of its row. \<open>order_seq\<close> is the
  \<^verbatim>\<open>AUTOINCREMENT\<close> counter of \<^verbatim>\<open>orders\<close>: the largest \<^verbatim>\<open>order_id\<close> given out so far.
  \<open>transactions\<close> lists the rows with their key, in insertion order. \<open>real_of_text\<close> is
  the engine's conversion of the text \<^verbatim>\<open>str(d)\<close> of a \<^verbatim>\<open>Decimal\<close> \<open>d\<close> to a \<^verbatim>\<open>REAL\<close>, applied
  when such a text is stored in a \<^verbatim>\<open>REAL\<close> column or is an operand of \<^verbatim>\<open>+\<close>; it is taken
  as a function of the value of \<open>d\<close>, and no method changes it.
\<close>

record db =
  users :: "int \<rightharpoonup> rat"
  balance_history :: "history_row list"
  orders :: "nat \<rightharpoonup> order_row"
  order_seq :: nat
  transactions :: "(string \<times> tx_row) list"
  admin_logs :: "log_row list"
  real_of_text :: "rat \<Rightarrow> rat"

definition status_allowed :: "string \<Rightarrow> bool" where
  "status_allowed st = (st = ''pending'' \<or> st = ''completed'' \<or> st = ''rejected'' \<or> st = ''expired'')"

text \<open>
  SQLite compares two texts byte by byte (collation \<^verbatim>\<open>BINARY\<close>); a proper prefix is
  smaller.
\<close>

fun text_less :: "string \<Rightarrow> string \<Rightarrow> bool" where
  "text_less [] [] = False"
| "text_less [] (y # ys) = True"
| "text_less (x # xs) [] = False"
| "text_less (x # xs) (y # ys) =
     ((of_char x :: nat) < of_char y \<or> (x = y \<and> text_less xs ys))"

text \<open>\<^verbatim>\<open>UPDATE transactions SET ... WHERE tx_id = ?\<close>\<close>

fun update_tx :: "string \<Rightarrow> (tx_row \<Rightarrow> tx_row) \<Rightarrow> (string \<times> tx_row) list \<Rightarrow> (string \<times> tx_row) list" where
  "update_tx k f [] = []"
| "update_tx k f ((k', t) # rows) =
     (if k' = k then (k', f t) else (k', t)) # update_tx k f rows"

text \<open>
  The value of \<^verbatim>\<open>balance + ?\<close> for a stored balance \<open>b\<close> and the bound text of \<open>a\<close>: the
  text becomes a number, and the sum is rounded to a double.
\<close>

definition sql_plus :: "db \<Rightarrow> rat \<Rightarrow> rat \<Rightarrow> rat" where
  "sql_plus s b a = binary64 (b + real_of_text s a)"

section \<open>Methods of \<^verbatim>\<open>Database\<close>\<close>

text \<open>\<^verbatim>\<open>get_user_balance\<close>: \<^verbatim>\<open>Decimal(str(balance))\<close>, and \<^verbatim>\<open>Decimal('0')\<close> without a row.\<close>

definition get_user_balance :: "db \<Rightarrow> int \<Rightarrow> rat" where
  "get_user_balance s user_id = (case users s user_id of None \<Rightarrow> 0 | Some b \<Rightarrow> py_decimal b)"

definition get_order :: "db \<Rightarrow> nat \<Rightarrow> order_row option" where
  "get_order s order_id = orders s order_id"

definition get_transaction :: "db \<Rightarrow> string \<Rightarrow> tx_row option" where
  "get_transaction s tx_id = map_of (transactions s) tx_id"

text \<open>
  \<^verbatim>\<open>modify_user_balance\<close>: reads the balance as a \<^verbatim>\<open>Decimal\<close>, adds the amount in the
  \<^verbatim>\<open>Decimal\<close> context, refuses a negative result, writes the text of the new balance
  (which the \<^verbatim>\<open>CHECK\<close> tests as a \<^verbatim>\<open>REAL\<close>), appends one \<^verbatim>\<open>balance_history\<close> row and one
  \<^verbatim>\<open>admin_logs\<close> row.
\<close>

definition modify_user_balance :: "db \<Rightarrow> int \<Rightarrow> rat \<Rightarrow> int \<Rightarrow> bool \<times> db" where
  "modify_user_balance s user_id amount admin_id =
     (case users s user_id of
        None \<Rightarrow> (False, s)
      | Some balance \<Rightarrow>
          let current_balance = py_decimal balance;
              new_balance = decimal_context (current_balance + amount) in
          if new_balance < 0 then (False, s)
          else if real_of_text s new_balance < 0 then (False, s)
          else (True, s\<lparr>
            users := (users s)(user_id \<mapsto> real_of_text s new_balance),
            balance_history := balance_history s @
              [\<lparr>h_user_id = user_id, h_old_balance = real_of_text s current_balance,
                h_new_balance = real_of_text s new_balance,
                h_change_amount = real_of_text s amount,
                h_transaction_type = (if amount > 0 then ''credit'' else ''debit''),
                h_admin_id = admin_id\<rparr>],
            admin_logs := admin_logs s @
              [\<lparr>l_admin_id = admin_id, l_action = ''modify_balance'',
                l_details = Modified_balance amount,
                l_target_user_id = Some user_id\<rparr>]\<rparr>))"

text \<open>
  \<^verbatim>\<open>update_user_balance\<close>: one conditional \<^verbatim>\<open>UPDATE ... SET balance = balance + ? WHERE
  user_id = ? AND balance + ? >= 0\<close>; \<^verbatim>\<open>rowcount\<close> is 0 when the user has no row or the
  sum, as SQLite computes it, is negative.
\<close>

definition update_user_balance :: "db \<Rightarrow> int \<Rightarrow> rat \<Rightarrow> bool \<times> db" where
  "update_user_balance s user_id amount =
     (case users s user_id of
        None \<Rightarrow> (False, s)
      | Some b \<Rightarrow>
          if sql_plus s b amount \<ge> 0
          then (True, s\<lparr>users := (users s)(user_id \<mapsto> sql_plus s b amount)\<rparr>)
          else (False, s))"

text \<open>
  \<^verbatim>\<open>create_order\<close>: inserts a \<^verbatim>\<open>'pending'\<close> row and returns its new \<^verbatim>\<open>order_id\<close>. A
  \<^verbatim>\<open>product_type\<close> other than \<^verbatim>\<open>'game'\<close> and \<^verbatim>\<open>'app'\<close> violates the \<^verbatim>\<open>CHECK\<close>: the insert
  is rolled back and no order id reaches the caller (\<open>None\<close>; the \<^verbatim>\<open>except\<close> block then
  fails on \<^verbatim>\<open>self.logger\<close>, which \<^verbatim>\<open>Database\<close> does not have, and \<^verbatim>\<open>_process_purchase\<close>
  catches that). The balance is not touched. The new id is the counter plus one; the
  counter is never below an id in the table, as every insert goes through it.
\<close>

definition create_order :: "db \<Rightarrow> int \<Rightarrow> string \<Rightarrow> string \<Rightarrow> string \<Rightarrow> rat \<Rightarrow> nat option \<times> db" where
  "create_order s user_id product_type product_id game_id price =
     (if product_type = ''game'' \<or> product_type = ''app'' then
        let order_id = order_seq s + 1 in
        (Some order_id, s\<lparr>
          orders := (orders s)(order_id \<mapsto>
            \<lparr>o_user_id = user_id, o_product_type = product_type, o_product_id = product_id,
              o_amount = game_id, o_price = real_of_text s price, o_status = ''pending''\<rparr>),
          order_seq := order_id\<rparr>)
      else (None, s))"

text \<open>\<^verbatim>\<open>kwargs.get(key, default)\<close>\<close>

definition kwargs_get :: "(string \<rightharpoonup> pyval) \<Rightarrow> string \<Rightarrow> pyval \<Rightarrow> pyval" where
  "kwargs_get kwargs key dflt = (case kwargs key of None \<Rightarrow> dflt | Some v \<Rightarrow> v)"

text \<open>
  \<^verbatim>\<open>create_transaction\<close>: inserts a \<^verbatim>\<open>'pending'\<close> deposit. \<open>now\<close> is the text of
  \<^verbatim>\<open>CURRENT_TIMESTAMP\<close>. It fails (rolled back, \<^verbatim>\<open>False\<close>) when \<^verbatim>\<open>json.dumps\<close> raises on
  \<^verbatim>\<open>payment_details\<close>, when \<^verbatim>\<open>original_currency\<close> cannot be bound, and when \<^verbatim>\<open>tx_id\<close> is
  already a key.
\<close>

definition create_transaction ::
  "db \<Rightarrow> string \<Rightarrow> string \<Rightarrow> int \<Rightarrow> rat \<Rightarrow> string \<Rightarrow> string option \<Rightarrow> string option \<Rightarrow>
   (string \<rightharpoonup> pyval) \<Rightarrow> bool \<times> db" where
  "create_transaction s now tx_id user_id amount payment_method payment_subtype payment_number kwargs =
     (let payment_details = kwargs_get kwargs ''payment_details'' (PyDict []);
          original_amount = kwargs_get kwargs ''original_amount'' (PyDecimal amount);
          original_currency = kwargs_get kwargs ''original_currency'' (PyStr ''SYP'');
          exchange_rate = kwargs_get kwargs ''exchange_rate'' (PyInt 1)
      in
      if \<not> json_dumps_ok payment_details then (False, s)
      else if \<not> sqlite_bindable original_currency then (False, s)
      else if tx_id \<in> set (map fst (transactions s)) then (False, s)
      else (True, s\<lparr>transactions := transactions s @
        [(tx_id, \<lparr>t_user_id = user_id, t_amount = real_of_text s amount, t_type = ''deposit'',
           t_payment_method = payment_method, t_payment_details = payment_details,
           t_payment_subtype = payment_subtype, t_payment_number = payment_number,
           t_original_amount = original_amount, t_original_currency = original_currency,
           t_exchange_rate = exchange_rate, t_created_at = now,
           t_status = ''pending'', t_reject_reason = None, t_admin_id = None\<rparr>)]\<rparr>))"

text \<open>
  \<^verbatim>\<open>confirm_transaction\<close>: reads \<^verbatim>\<open>user_id\<close> and \<^verbatim>\<open>amount\<close> of the row (not its status),
  sets the status to \<^verbatim>\<open>'completed'\<close>, adds the amount (\<^verbatim>\<open>Decimal(str(amount))\<close>, bound as
  text) to the user's balance and logs. The \<^verbatim>\<open>UPDATE users\<close> changes no row when the user
  has none, and violates \<^verbatim>\<open>CHECK (balance >= 0)\<close> when the sum is negative: then
  everything is rolled back.
\<close>

definition confirm_transaction :: "db \<Rightarrow> string \<Rightarrow> int \<Rightarrow> bool \<times> db" where
  "confirm_transaction s tx_id admin_id =
     (case map_of (transactions s) tx_id of
        None \<Rightarrow> (False, s)
      | Some result \<Rightarrow>
          let user_id = t_user_id result;
              amount = py_decimal (t_amount result);
              s1 = s\<lparr>transactions := update_tx tx_id
                     (\<lambda>t. t\<lparr>t_status := ''completed'', t_admin_id := Some admin_id\<rparr>)
                     (transactions s)\<rparr>;
              log = \<lparr>l_admin_id = admin_id, l_action = ''confirm_transaction'',
                     l_details = Confirmed_transaction tx_id,
                     l_target_user_id = Some user_id\<rparr>
          in
          (case users s user_id of
             None \<Rightarrow> (True, s1\<lparr>admin_logs := admin_logs s @ [log]\<rparr>)
           | Some b \<Rightarrow>
               if sql_plus s b amount < 0 then (False, s)
               else (True, s1\<lparr>users := (users s)(user_id \<mapsto> sql_plus s b amount),
                               admin_logs := admin_logs s @ [log]\<rparr>)))"

text \<open>
  \<^verbatim>\<open>reject_transaction\<close>: the same steps with status \<^verbatim>\<open>'rejected'\<close> and the reason; the
  statement under the comment \<^verbatim>\<open># Refund user balance\<close> adds the amount to the balance.
\<close>

definition reject_transaction :: "db \<Rightarrow> string \<Rightarrow> int \<Rightarrow> string \<Rightarrow> bool \<times> db" where
  "reject_transaction s tx_id admin_id reason =
     (case map_of (transactions s) tx_id of
        None \<Rightarrow> (False, s)
      | Some result \<Rightarrow>
          let user_id = t_user_id result;
              amount = py_decimal (t_amount result);
              s1 = s\<lparr>transactions := update_tx tx_id
                     (\<lambda>t. t\<lparr>t_status := ''rejected'', t_reject_reason := Some reason,
                            t_admin_id := Some admin_id\<rparr>)
                     (transactions s)\<rparr>;
              log = \<lparr>l_admin_id = admin_id, l_action = ''reject_transaction'',
                     l_details = Rejected_transaction tx_id reason,
                     l_target_user_id = Some user_id\<rparr>
          in
          (case users s user_id of
             None \<Rightarrow> (True, s1\<lparr>admin_logs := admin_logs s @ [log]\<rparr>)
           | Some b \<Rightarrow>
               if sql_plus s b amount < 0 then (False, s)
               else (True, s1\<lparr>users := (users s)(user_id \<mapsto> sql_plus s b amount),
                               admin_logs := admin_logs s @ [log]\<rparr>)))"

text \<open>
  \<^verbatim>\<open>update_order_status\<close>: writes the given status on the row, whatever its present
  status, and logs; with no such row the \<^verbatim>\<open>UPDATE\<close> changes nothing and the log row is
  still written. A status outside the \<^verbatim>\<open>CHECK\<close> list on an existing row rolls back.
\<close>

definition update_order_status :: "db \<Rightarrow> nat \<Rightarrow> string \<Rightarrow> int \<Rightarrow> bool \<times> db" where
  "update_order_status s order_id status admin_id =
     (let log = \<lparr>l_admin_id = admin_id, l_action = ''update_order_status'',
                 l_details = Updated_order order_id status, l_target_user_id = None\<rparr>
      in
      case orders s order_id of
        None \<Rightarrow> (True, s\<lparr>admin_logs := admin_logs s @ [log]\<rparr>)
      | Some row \<Rightarrow>
          if \<not> status_allowed status then (False, s)
          else (True, s\<lparr>orders := (orders s)(order_id \<mapsto> row\<lparr>o_status := status\<rparr>),
                          admin_logs := admin_logs s @ [log]\<rparr>))"

text \<open>
  \<^verbatim>\<open>reject_order\<close>: reads \<^verbatim>\<open>user_id\<close> and \<^verbatim>\<open>price\<close> of the row (not its status), sets the
  status to \<^verbatim>\<open>'rejected'\<close>, adds the price (\<^verbatim>\<open>Decimal(str(price))\<close>, bound as text) to the
  user's balance and logs.
\<close>

definition reject_order :: "db \<Rightarrow> nat \<Rightarrow> int \<Rightarrow> bool \<times> db" where
  "reject_order s order_id admin_id =
     (case orders s order_id of
        None \<Rightarrow> (False, s)
      | Some result \<Rightarrow>
          let user_id = o_user_id result;
              price = py_decimal (o_price result);
              s1 = s\<lparr>orders := (orders s)(order_id \<mapsto> result\<lparr>o_status := ''rejected''\<rparr>)\<rparr>;
              log = \<lparr>l_admin_id = admin_id, l_action = ''reject_order'',
                     l_details = Rejected_order order_id,
                     l_target_user_id = Some user_id\<rparr>
          in
          (case users s user_id of
             None \<Rightarrow> (True, s1\<lparr>admin_logs := admin_logs s @ [log]\<rparr>)
           | Some b \<Rightarrow>
               if sql_plus s b price < 0 then (False, s)
               else (True, s1\<lparr>users := (users s)(user_id \<mapsto> sql_plus s b price),
                               admin_logs := admin_logs s @ [log]\<rparr>)))"

text \<open>
  \<^verbatim>\<open>cleanup_expired_transactions\<close>: \<^verbatim>\<open>DELETE FROM transactions WHERE status = 'pending'
  AND created_at < ?\<close>, returning \<^verbatim>\<open>rowcount\<close>. \<open>expiry_time\<close> is the text
  \<^verbatim>\<open>adapt_datetime\<close> gives.
\<close>

definition expired_pending :: "string \<Rightarrow> string \<times> tx_row \<Rightarrow> bool" where
  "expired_pending expiry_time row =
     (t_status (snd row) = ''pending'' \<and> text_less (t_created_at (snd row)) expiry_time)"

definition cleanup_expired_transactions :: "db \<Rightarrow> string \<Rightarrow> nat \<times> db" where
  "cleanup_expired_transactions s expiry_time =
     (let deleted_count = length (filter (expired_pending expiry_time) (transactions s)) in
      (deleted_count,
       s\<lparr>transactions := filter (\<lambda>row. \<not> expired_pending expiry_time row) (transactions s)\<rparr>))"

section \<open>The handlers that call the store\<close>

text \<open>
  The handlers of \<^verbatim>\<open>recharge.py\<close> and \<^verbatim>\<open>purchase.py\<close> are modelled up to their calls of
  \<^verbatim>\<open>Database\<close>: the messages they send afterwards do not change the store. \<open>reply\<close> is
  the branch a handler of an admin button ends in; \<open>Index_error\<close> is the \<^verbatim>\<open>IndexError\<close> of
  \<^verbatim>\<open>query.data.split('_')[2]\<close>, raised before any call of the store.
\<close>

datatype reply = Index_error | Not_found | Already_processed | Db_error | Done

text \<open>\<^verbatim>\<open>str.split(sep)\<close> with a one-character separator: never an empty list.\<close>

fun py_split :: "char \<Rightarrow> string \<Rightarrow> string list" where
  "py_split c [] = [[]]"
| "py_split c (x # xs) =
     (if x = c then [] # py_split c xs
      else (case py_split c xs of
              w # ws \<Rightarrow> (x # w) # ws
            | [] \<Rightarrow> [[x]]))"

text \<open>\<^verbatim>\<open>query.data.split('_')[2]\<close>\<close>

definition callback_arg :: "string \<Rightarrow> string option" where
  "callback_arg data =
     (let parts = py_split (CHR ''_'') data
      in if 2 < length parts then Some (parts ! 2) else None)"

text \<open>
  \<^verbatim>\<open>notify_admins\<close> gives the confirm button of a transaction the callback data
  \<^verbatim>\<open>f"confirm_payment_{tx_id}"\<close>.
\<close>

definition confirm_button :: "string \<Rightarrow> string" where
  "confirm_button tx_id = ''confirm_payment_'' @ tx_id"

text \<open>
  \<^verbatim>\<open>RechargeManager.confirm_payment\<close> on the callback data of the pressed button: it
  takes the third part of the data as the transaction id, reads the transaction with
  \<^verbatim>\<open>get_transaction\<close> (a connection of its own), answers that the operation is already
  confirmed or cancelled when the status is not \<^verbatim>\<open>'pending'\<close>, and otherwise calls
  \<^verbatim>\<open>confirm_transaction\<close>.
\<close>

definition confirm_payment :: "db \<Rightarrow> string \<Rightarrow> int \<Rightarrow> reply \<times> db" where
  "confirm_payment s data admin_id =
     (case callback_arg data of
        None \<Rightarrow> (Index_error, s)
      | Some tx_id \<Rightarrow>
          (case get_transaction s tx_id of
             None \<Rightarrow> (Not_found, s)
           | Some tx_details \<Rightarrow>
               if t_status tx_details \<noteq> ''pending'' then (Already_processed, s)
               else (case confirm_transaction s tx_id admin_id of
                       (False, s') \<Rightarrow> (Db_error, s')
                     | (True, s') \<Rightarrow> (Done, s'))))"

text \<open>
  \<^verbatim>\<open>RechargeManager.handle_reject_reason\<close>: calls \<^verbatim>\<open>reject_transaction\<close> with the
  transaction id it finds under \<^verbatim>\<open>'reject_tx_id'\<close> in \<^verbatim>\<open>user_data\<close>, without reading the
  status first.
\<close>

definition handle_reject_reason :: "db \<Rightarrow> string \<Rightarrow> int \<Rightarrow> string \<Rightarrow> reply \<times> db" where
  "handle_reject_reason s tx_id admin_id reason =
     (case reject_transaction s tx_id admin_id reason of
        (False, s') \<Rightarrow> (Db_error, s')
      | (True, s') \<Rightarrow> (Done, s'))"

text \<open>
  \<^verbatim>\<open>PurchaseManager.confirm_order\<close> and \<^verbatim>\<open>PurchaseManager.reject_order\<close> on the order id of
  the pressed button. The button's data ends in the decimal text of the integer
  \<^verbatim>\<open>order_id\<close>, which has no underscore and which SQLite compares with the integer key as
  that integer.
\<close>

definition confirm_order :: "db \<Rightarrow> nat \<Rightarrow> int \<Rightarrow> reply \<times> db" where
  "confirm_order s order_id admin_id =
     (case get_order s order_id of
        None \<Rightarrow> (Not_found, s)
      | Some order \<Rightarrow>
          if o_status order \<noteq> ''pending'' then (Already_processed, s)
          else (case update_order_status s order_id ''completed'' admin_id of
                  (False, s') \<Rightarrow> (Db_error, s')
                | (True, s') \<Rightarrow> (Done, s')))"

definition purchase_reject_order :: "db \<Rightarrow> nat \<Rightarrow> int \<Rightarrow> reply \<times> db" where
  "purchase_reject_order s order_id admin_id =
     (case get_order s order_id of
        None \<Rightarrow> (Not_found, s)
      | Some order \<Rightarrow>
          if o_status order \<noteq> ''pending'' then (Already_processed, s)
          else (case reject_order s order_id admin_id of
                  (False, s') \<Rightarrow> (Db_error, s')
                | (True, s') \<Rightarrow> (Done, s')))"

text \<open>
  \<^verbatim>\<open>PurchaseManager._process_purchase\<close>: compares the balance it reads with the price,
  then calls \<^verbatim>\<open>create_order\<close>, then \<^verbatim>\<open>update_user_balance\<close> with \<^verbatim>\<open>-price\<close> (rounded by the
  \<^verbatim>\<open>Decimal\<close> context); each call commits on its own, and a failed debit returns without
  touching the order.
\<close>

datatype purchase_reply = Insufficient_balance | Order_error | Debit_error | Order_placed nat

definition process_purchase ::
  "db \<Rightarrow> int \<Rightarrow> string \<Rightarrow> string \<Rightarrow> string \<Rightarrow> rat \<Rightarrow> purchase_reply \<times> db" where
  "process_purchase s user product_type product_id game_id price =
     (let user_balance = get_user_balance s user in
      if user_balance < price then (Insufficient_balance, s)
      else (case create_order s user product_type product_id game_id price of
              (None, s1) \<Rightarrow> (Order_error, s1)
            | (Some order_id, s1) \<Rightarrow>
                (case update_user_balance s1 user (decimal_context (- price)) of
                   (False, s2) \<Rightarrow> (Debit_error, s2)
                 | (True, s2) \<Rightarrow> (Order_placed order_id, s2))))"

section \<open>Sequences of calls\<close>

text \<open>The methods of \<^verbatim>\<open>Database\<close> that write, as calls to run one after the other.\<close>

datatype db_call =
    Modify_user_balance int rat int
  | Update_user_balance int rat
  | Create_order int string string string rat
  | Create_transaction string string int rat string "string option" "string option"
  | Confirm_transaction string int
  | Reject_transaction string int string
  | Update_order_status nat string int
  | Reject_order nat int
  | Cleanup_expired_transactions string

fun run_call :: "db \<Rightarrow> db_call \<Rightarrow> db" where
  "run_call s (Modify_user_balance u a adm) = snd (modify_user_balance s u a adm)"
| "run_call s (Update_user_balance u a) = snd (update_user_balance s u a)"
| "run_call s (Create_order u pt pid gid p) = snd (create_order s u pt pid gid p)"
| "run_call s (Create_transaction now tx u a pm sub num) =
     snd (create_transaction s now tx u a pm sub num Map.empty)"
| "run_call s (Confirm_transaction tx adm) = snd (confirm_transaction s tx adm)"
| "run_call s (Reject_transaction tx adm r) = snd (reject_transaction s tx adm r)"
| "run_call s (Update_order_status oid st adm) = snd (update_order_status s oid st adm)"
| "run_call s (Reject_order oid adm) = snd (reject_order s oid adm)"
| "run_call s (Cleanup_expired_transactions t) = snd (cleanup_expired_transactions s t)"

definition run_calls :: "db \<Rightarrow> db_call list \<Rightarrow> db" where
  "run_calls s calls = foldl run_call s calls"

text \<open>
  Replaying the \<^verbatim>\<open>change_amount\<close> column of a user's \<^verbatim>\<open>balance_history\<close> rows from 0, in
  exact arithmetic.
\<close>

definition replay_history :: "history_row list \<Rightarrow> int \<Rightarrow> rat" where
  "replay_history hist user_id =
     sum_list (map h_change_amount (filter (\<lambda>h. h_user_id h = user_id) hist))"

text \<open>
  The calls after which a history that replayed to the balance still does:
  \<^verbatim>\<open>modify_user_balance\<close>, which appends a \<^verbatim>\<open>balance_history\<close> row, and the calls that
  change no balance. The other four change a balance and append no row.
\<close>

fun audited_call :: "db_call \<Rightarrow> bool" where
  "audited_call (Update_user_balance u a) = False"
| "audited_call (Confirm_transaction tx adm) = False"
| "audited_call (Reject_transaction tx adm r) = False"
| "audited_call (Reject_order oid adm) = False"
| "audited_call c = True"

text \<open>
  A \<^verbatim>\<open>modify_user_balance\<close> call is exact in a store when none of the conversions on its
  way rounds: the balance reads back as itself, the \<^verbatim>\<open>Decimal\<close> sum is not rounded, the
  texts of the sum and of the amount become those numbers as \<^verbatim>\<open>REAL\<close>, and the new balance
  reads back as itself. A run is exact when every call is, in the store it meets.
\<close>

fun exact_call :: "db \<Rightarrow> db_call \<Rightarrow> bool" where
  "exact_call s (Modify_user_balance u a adm) =
     (case users s u of
        None \<Rightarrow> True
      | Some b \<Rightarrow> py_decimal b = b \<and> decimal_context (b + a) = b + a \<and>
                  real_of_text s (b + a) = b + a \<and> real_of_text s a = a \<and>
                  py_decimal (b + a) = b + a)"
| "exact_call s c = True"

fun exact_run :: "db \<Rightarrow> db_call list \<Rightarrow> bool" where
  "exact_run s [] = True"
| "exact_run s (c # cs) = (exact_call s c \<and> exact_run (run_call s c) cs)"

text \<open>The calls whose SQL has a \<^verbatim>\<open>SET status\<close>.\<close>

fun writes_status :: "db_call \<Rightarrow> bool" where
  "writes_status (Confirm_transaction tx adm) = True"
| "writes_status (Reject_transaction tx adm r) = True"
| "writes_status (Update_order_status oid st adm) = True"
| "writes_status (Reject_order oid adm) = True"
| "writes_status c = False"

text \<open>The invariant of \<^verbatim>\<open>CHECK (balance >= 0)\<close> on \<^verbatim>\<open>users\<close>.\<close>

definition balances_nonneg :: "db \<Rightarrow> bool" where
  "balances_nonneg s = (\<forall>u b. users s u = Some b \<longrightarrow> 0 \<le> b)"

section \<open>Example stores\<close>

text \<open>
  The examples use whole amounts far below \<open>2 ^ 53\<close> and the text
  \<^verbatim>\<open>100.000000000000000001\<close>; on these SQLite's conversion gives the nearest double, so the
  example stores convert with \<open>binary64\<close>.

  A user with balance 0 and one pending top-up \<^verbatim>\<open>TX1\<close> of 50000 by Syriatel Cash, as
  \<^verbatim>\<open>create_transaction\<close> called with no keyword stores it.
\<close>

definition example_tx :: tx_row where
  "example_tx =
     \<lparr>t_user_id = 1, t_amount = 50000, t_type = ''deposit'',
      t_payment_method = ''syriatel'', t_payment_details = PyDict [],
      t_payment_subtype = None, t_payment_number = None,
      t_original_amount = PyDecimal 50000, t_original_currency = PyStr ''SYP'',
      t_exchange_rate = PyInt 1, t_created_at = ''2024-01-01 10:00:00'',
      t_status = ''pending'', t_reject_reason = None, t_admin_id = None\<rparr>"

definition example_db :: db where
  "example_db =
     \<lparr>users = [1 \<mapsto> 0], balance_history = [], orders = Map.empty, order_seq = 0,
      transactions = [(''TX1'', example_tx)], admin_logs = [], real_of_text = binary64\<rparr>"

text \<open>
  A user who had 10000, after buying a game package for 9500: balance 500 and the
  pending order 1.
\<close>

definition example_order :: order_row where
  "example_order =
     \<lparr>o_user_id = 1, o_product_type = ''game'', o_product_id = ''pubg'',
      o_amount = ''ID123'', o_price = 9500, o_status = ''pending''\<rparr>"

definition example_shop :: db where
  "example_shop =
     \<lparr>users = [1 \<mapsto> 500], balance_history = [], orders = [1 \<mapsto> example_order],
      order_seq = 1, transactions = [], admin_logs = [], real_of_text = binary64\<rparr>"

text \<open>
  Three top-ups: \<^verbatim>\<open>TX1\<close> pending since 1 January, \<^verbatim>\<open>TX2\<close> pending since 3 January,
  \<^verbatim>\<open>TX3\<close> of 1 January already completed.
\<close>

definition example_sweep :: db where
  "example_sweep =
     \<lparr>users = [1 \<mapsto> 0], balance_history = [], orders = Map.empty, order_seq = 0,
      transactions =
        [(''TX1'', example_tx),
         (''TX2'', example_tx\<lparr>t_created_at := ''2024-01-03 09:30:00''\<rparr>),
         (''TX3'', example_tx\<lparr>t_status := ''completed''\<rparr>)],
      admin_logs = [], real_of_text = binary64\<rparr>"

text \<open>The user of \<open>example_db\<close> with a balance of 100, and with one of 10000.\<close>

definition example_hundred :: db where
  "example_hundred = example_db\<lparr>users := [1 \<mapsto> 100]\<rparr>"

definition example_funded :: db where
  "example_funded = example_db\<lparr>users := [1 \<mapsto> 10000]\<rparr>"

text \<open>The shop after order 1 has been rejected and refunded.\<close>

definition example_closed_shop :: db where
  "example_closed_shop =
     example_shop\<lparr>users := [1 \<mapsto> 10000],
                   orders := [1 \<mapsto> example_order\<lparr>o_status := ''rejected''\<rparr>]\<rparr>"

section \<open>Facts about the numbers\<close>

text \<open>
  Whole numbers below \<open>2 ^ 53\<close> are doubles, and whole numbers below \<open>10 ^ 28\<close> pass the
  \<^verbatim>\<open>Decimal\<close> context unchanged.
\<close>

lemma round_half_even_of_int [simp]: "round_half_even (of_int m) = m"
  by (simp add: round_half_even_def)

lemma ndigits_le:
  assumes "2 \<le> base" and "n < base ^ k"
  shows "ndigits base n \<le> k"
  using assms
proof (induction k arbitrary: n)
  case 0
  then show ?case by (simp add: ndigits.simps)
next
  case (Suc k)
  show ?case
  proof (cases "n \<le> 0")
    case True
    then show ?thesis by (simp add: ndigits.simps)
  next
    case False
    have "n div base * base + n mod base = n" by simp
    moreover have "0 \<le> n mod base" using Suc.prems(1) by simp
    ultimately have "n div base * base \<le> n" by linarith
    with Suc.prems(2) have "n div base * base < base ^ k * base"
      by (simp add: mult.commute)
    with Suc.prems(1) have "n div base < base ^ k"
      by (simp add: mult_less_cancel_right)
    with Suc.IH Suc.prems(1) have "ndigits base (n div base) \<le> k" by blast
    with False Suc.prems(1) show ?thesis
      by (subst ndigits.simps) simp
  qed
qed

lemma scale_neg: "p \<le> 0 \<Longrightarrow> scale base p = 1 / of_int base ^ nat (- p)"
  by (cases "p = 0") (simp_all add: scale_def)

lemma round_sig_whole:
  assumes "2 \<le> base" and "\<bar>n\<bar> < base ^ prec" and "emin \<le> 0"
  shows "round_sig base prec emin (of_int n) = of_int n"
proof (cases "n = 0")
  case True
  then show ?thesis by (simp add: round_sig_def)
next
  case False
  let ?a = "\<bar>of_int n :: rat\<bar>"
  have a: "?a = of_int \<bar>n\<bar>" by simp
  from False have "1 \<le> \<bar>n\<bar>" by arith
  then have one: "1 \<le> ?a" by simp
  have "ndigits base \<bar>n\<bar> \<le> prec"
    using assms(1,2) by (rule ndigits_le)
  moreover have "\<lfloor>?a\<rfloor> = \<bar>n\<bar>"
    by (simp only: a floor_of_int)
  ultimately have "floor_log base ?a - (int prec - 1) \<le> 0"
    using one by (simp add: floor_log_def)
  with assms(3) have p: "max (floor_log base ?a - (int prec - 1)) emin \<le> 0"
    by simp
  define k where "k = nat (- max (floor_log base ?a - (int prec - 1)) emin)"
  have sc: "scale base (max (floor_log base ?a - (int prec - 1)) emin) = 1 / of_int base ^ k"
    unfolding k_def using p by (rule scale_neg)
  have nz: "base \<noteq> 0"
    using assms(1) by simp
  have q: "?a / (1 / of_int base ^ k) = of_int (\<bar>n\<bar> * base ^ k)"
    by simp
  have "round_sig base prec emin (of_int n)
          = sgn (of_int n) * of_int (round_half_even (?a / (1 / of_int base ^ k))) * (1 / of_int base ^ k)"
    using False by (simp add: round_sig_def Let_def sc)
  also have "\<dots> = sgn (of_int n) * of_int (\<bar>n\<bar> * base ^ k) * (1 / of_int base ^ k)"
    by (simp only: q round_half_even_of_int)
  also have "\<dots> = sgn (of_int n) * of_int \<bar>n\<bar>"
    using nz by simp
  also have "\<dots> = of_int n"
    by (simp add: sgn_if)
  finally show ?thesis .
qed

lemma binary64_whole: "\<bar>n\<bar> < 2 ^ 53 \<Longrightarrow> binary64 (of_int n) = of_int n"
  unfolding binary64_def by (rule round_sig_whole) simp_all

lemma decimal_context_whole: "\<bar>n\<bar> < 10 ^ 28 \<Longrightarrow> decimal_context (of_int n) = of_int n"
  unfolding decimal_context_def by (rule round_sig_whole) simp_all

lemma binary64_0: "binary64 0 = 0"
  by (simp add: binary64_def round_sig_def)

lemma decimal_context_0: "decimal_context 0 = 0"
  by (simp add: decimal_context_def round_sig_def)

lemma binary64_numeral:
  "(numeral w :: int) < 2 ^ 53 \<Longrightarrow> binary64 (numeral w) = numeral w"
  using binary64_whole [of "numeral w"] by simp

lemma binary64_neg_numeral:
  "(numeral w :: int) < 2 ^ 53 \<Longrightarrow> binary64 (- numeral w) = - numeral w"
  using binary64_whole [of "- numeral w"] by simp

lemma decimal_context_numeral:
  "(numeral w :: int) < 10 ^ 28 \<Longrightarrow> decimal_context (numeral w) = numeral w"
  using decimal_context_whole [of "numeral w"] by simp

lemma decimal_context_neg_numeral:
  "(numeral w :: int) < 10 ^ 28 \<Longrightarrow> decimal_context (- numeral w) = - numeral w"
  using decimal_context_whole [of "- numeral w"] by simp

lemmas whole_exact =
  binary64_0 decimal_context_0 binary64_numeral binary64_neg_numeral
  decimal_context_numeral decimal_context_neg_numeral

text \<open>The balances of the examples read back as themselves.\<close>

lemma py_decimal_0: "py_decimal 0 = 0"
  by (simp add: py_decimal_def)

lemma py_decimal_100: "py_decimal 100 = 100" by code_simp
lemma py_decimal_500: "py_decimal 500 = 500" by code_simp
lemma py_decimal_700: "py_decimal 700 = 700" by code_simp
lemma py_decimal_9500: "py_decimal 9500 = 9500" by code_simp
lemma py_decimal_10000: "py_decimal 10000 = 10000" by code_simp
lemma py_decimal_19500: "py_decimal 19500 = 19500" by code_simp
lemma py_decimal_50000: "py_decimal 50000 = 50000" by code_simp
lemma py_decimal_100000: "py_decimal 100000 = 100000" by code_simp
lemma py_decimal_neg_400: "py_decimal (- 400) = - 400" by code_simp

lemmas reads_back =
  py_decimal_0 py_decimal_100 py_decimal_500 py_decimal_700 py_decimal_9500
  py_decimal_10000 py_decimal_19500 py_decimal_50000 py_decimal_100000 py_decimal_neg_400

text \<open>
  Rounding is visible off the whole numbers: the double nearest to
  \<^verbatim>\<open>100.000000000000000001\<close> is 100, and \<^verbatim>\<open>0.1 + 0.2\<close> is not the double of \<^verbatim>\<open>0.3\<close>.
\<close>

lemma binary64_just_above_100: "binary64 (- (100 + 1 / 10 ^ 18)) = - 100"
  by code_simp

lemma binary64_sum_of_tenths:
  "binary64 (binary64 (1 / 10) + binary64 (2 / 10)) \<noteq> binary64 (3 / 10)"
  by code_simp

section \<open>Facts about the tables\<close>

lemma map_of_update_tx:
  "map_of (update_tx k f rows) k' =
     (if k' = k then map_option f (map_of rows k) else map_of rows k')"
  by (induction rows) auto

lemma map_of_filter_keep:
  "map_of rows k = Some v \<Longrightarrow> P (k, v) \<Longrightarrow> map_of (filter P rows) k = Some v"
  by (induction rows) (auto split: if_splits)

lemma py_split_no_sep: "c \<notin> set w \<Longrightarrow> py_split c w = [w]"
  by (induction w) auto

lemma callback_arg_confirm:
  "CHR ''_'' \<notin> set tx_id \<Longrightarrow> callback_arg (confirm_button tx_id) = Some tx_id"
  by (simp add: callback_arg_def confirm_button_def py_split_no_sep)


lemma run_call_nonneg: "balances_nonneg s \<Longrightarrow> balances_nonneg (run_call s c)"
  by (cases c)
     (auto simp: balances_nonneg_def modify_user_balance_def update_user_balance_def
        create_order_def create_transaction_def confirm_transaction_def
        reject_transaction_def update_order_status_def reject_order_def
        cleanup_expired_transactions_def Let_def
        split: option.splits if_splits)

lemma replay_history_append:
  "replay_history (hist @ [h]) u =
     replay_history hist u + (if h_user_id h = u then h_change_amount h else 0)"
  by (simp add: replay_history_def)

lemma run_call_audited:
  assumes "audited_call c" and "exact_call s c"
    and "replay_history (balance_history s) u = get_user_balance s u"
  shows "replay_history (balance_history (run_call s c)) u = get_user_balance (run_call s c) u"
  using assms
  by (cases c)
     (auto simp: replay_history_append get_user_balance_def modify_user_balance_def
        create_order_def create_transaction_def update_order_status_def
        cleanup_expired_transactions_def Let_def
        split: option.splits)

lemma run_call_real_of_text: "real_of_text (run_call s c) = real_of_text s"
  by (cases c)
     (auto simp: modify_user_balance_def update_user_balance_def
        create_order_def create_transaction_def confirm_transaction_def
        reject_transaction_def update_order_status_def reject_order_def
        cleanup_expired_transactions_def Let_def
        split: option.splits)

lemma run_calls_audited:
  "list_all audited_call calls \<Longrightarrow> exact_run s calls \<Longrightarrow>
   replay_history (balance_history s) u = get_user_balance s u \<Longrightarrow>
   replay_history (balance_history (foldl run_call s calls)) u
     = get_user_balance (foldl run_call s calls) u"
  by (induction calls arbitrary: s) (simp_all add: run_call_audited)

section \<open>The ledger\<close>

text \<open>
  C9, as stated, fails: the test \<^verbatim>\<open>balance + ? >= 0\<close> is made on doubles. With a balance of
  100, a debit of \<^verbatim>\<open>100.000000000000000001\<close> exceeds the balance, but its text becomes the
  double 100: the sum is 0, the debit succeeds and the balance is 0.
\<close>

theorem debit_rounds_onto_balance:
  "users example_hundred 1 = Some 100 \<and>
   (100 :: rat) < 100 + 1 / 10 ^ 18 \<and>
   fst (update_user_balance example_hundred 1 (- (100 + 1 / 10 ^ 18))) = True \<and>
   users (snd (update_user_balance example_hundred 1 (- (100 + 1 / 10 ^ 18)))) 1 = Some 0"
proof -
  have u: "users example_hundred 1 = Some 100"
    by (simp add: example_hundred_def)
  have lt: "(100 :: rat) < 100 + 1 / 10 ^ 18" by simp
  have "sql_plus example_hundred 100 (- (100 + 1 / 10 ^ 18))
          = binary64 (100 + binary64 (- (100 + 1 / 10 ^ 18)))"
    by (simp add: sql_plus_def example_hundred_def example_db_def)
  also have "\<dots> = binary64 (100 + - 100)"
    by (simp only: binary64_just_above_100)
  also have "\<dots> = 0"
    by (simp add: binary64_0)
  finally have sum: "sql_plus example_hundred 100 (- (100 + 1 / 10 ^ 18)) = 0" .
  have r: "update_user_balance example_hundred 1 (- (100 + 1 / 10 ^ 18))
             = (True, example_hundred\<lparr>users := (users example_hundred)(1 \<mapsto> 0)\<rparr>)"
    by (simp only: update_user_balance_def u option.case sum order_refl if_True)
  show ?thesis
    by (intro conjI u lt) (simp_all only: r fst_conv snd_conv, simp_all)
qed

text \<open>
  C9, amended. A debit is \<^verbatim>\<open>update_user_balance\<close> with the negated amount. When the
  account holds \<open>b\<close>, the amount exceeds \<open>b\<close>, and the sum SQLite computes is the exact
  difference (as it is for whole amounts below \<open>2 ^ 53\<close>), the call reports failure
  (\<^verbatim>\<open>False\<close>, the answer the code has for insufficient funds) and the store, so the
  balance, is as before.
\<close>

theorem debit_over_balance_fails:
  assumes "users s user_id = Some b" and "b < amount"
    and "sql_plus s b (- amount) = b - amount"
  shows "update_user_balance s user_id (- amount) = (False, s)"
  using assms by (simp add: update_user_balance_def)

text \<open>
  The scenario of the specification: from balance 0 a credit of 100 gives 100, and a
  debit of 150 then fails and leaves 100.
\<close>

theorem debit_over_balance_fails_witness:
  "update_user_balance example_db 1 100 = (True, example_hundred) \<and>
   users example_hundred 1 = Some 100 \<and>
   (100::rat) < 150 \<and>
   sql_plus example_hundred 100 (- 150) = 100 - 150 \<and>
   update_user_balance example_hundred 1 (- 150) = (False, example_hundred) \<and>
   get_user_balance example_hundred 1 = 100"
proof -
  have u: "users example_hundred 1 = Some 100"
    by (simp add: example_hundred_def)
  have lt: "(100::rat) < 150" by simp
  have e: "sql_plus example_hundred 100 (- 150) = 100 - 150"
    by (simp add: sql_plus_def example_hundred_def example_db_def whole_exact)
  have c: "update_user_balance example_db 1 100 = (True, example_hundred)"
    by (simp add: update_user_balance_def sql_plus_def example_hundred_def example_db_def
          whole_exact)
  have g: "get_user_balance example_hundred 1 = 100"
    by (simp add: get_user_balance_def example_hundred_def reads_back)
  show ?thesis
    by (intro conjI c u lt e g debit_over_balance_fails [OF u lt e])
qed

text \<open>
  C5. Credit and debit are \<^verbatim>\<open>update_user_balance\<close> with a positive and a negative amount,
  adjust is \<^verbatim>\<open>modify_user_balance\<close>. From a store in which no balance is negative, no
  sequence of these calls, nor of any other writing method of \<^verbatim>\<open>Database\<close>, reaches a
  store with a negative balance.
\<close>

theorem balance_never_negative:
  "balances_nonneg s \<Longrightarrow> balances_nonneg (run_calls s calls)"
  unfolding run_calls_def
  by (induction calls arbitrary: s) (simp_all add: run_call_nonneg)

theorem balance_never_negative_witness:
  "balances_nonneg example_db \<and>
   balances_nonneg (run_calls example_db
     [Update_user_balance 1 100, Update_user_balance 1 (- 150),
      Modify_user_balance 1 (- 30) 99, Modify_user_balance 1 (- 80) 99])"
proof -
  have h: "balances_nonneg example_db"
    by (simp add: balances_nonneg_def example_db_def)
  show ?thesis
    by (intro conjI h balance_never_negative [OF h])
qed

text \<open>
  C6, as stated, fails: \<^verbatim>\<open>confirm_transaction\<close> credits 50000 and appends nothing to
  \<^verbatim>\<open>balance_history\<close>, so the history that replayed to the balance 0 before still
  replays to 0.
\<close>

theorem confirm_transaction_writes_no_history:
  "replay_history (balance_history example_db) 1 = get_user_balance example_db 1 \<and>
   fst (confirm_transaction example_db ''TX1'' 99) = True \<and>
   get_user_balance (snd (confirm_transaction example_db ''TX1'' 99)) 1 = 50000 \<and>
   replay_history (balance_history (snd (confirm_transaction example_db ''TX1'' 99))) 1 = 0"
  by (simp add: confirm_transaction_def example_db_def example_tx_def get_user_balance_def
        replay_history_def sql_plus_def whole_exact reads_back)

text \<open>
  C6, amended. \<^verbatim>\<open>modify_user_balance\<close> is the only method that appends to
  \<^verbatim>\<open>balance_history\<close>: a successful call appends exactly one row, for that user, with the
  amount as the engine stores it, and a refused call changes nothing. A user's history
  that replays from 0 to the balance still does after any sequence of
  \<^verbatim>\<open>modify_user_balance\<close> calls and of calls that change no balance, provided no
  conversion rounds on the way (the run is exact, as runs on whole amounts below
  \<open>2 ^ 53\<close> are). \<^verbatim>\<open>update_user_balance\<close> (the debit of a purchase),
  \<^verbatim>\<open>confirm_transaction\<close>, \<^verbatim>\<open>reject_transaction\<close> and \<^verbatim>\<open>reject_order\<close> leave
  \<^verbatim>\<open>balance_history\<close> as it was.
\<close>

theorem history_replays_modify_user_balance:
  "(list_all audited_call calls \<and> exact_run s calls \<and>
    replay_history (balance_history s) u = get_user_balance s u \<longrightarrow>
      replay_history (balance_history (run_calls s calls)) u
        = get_user_balance (run_calls s calls) u) \<and>
   (modify_user_balance s v a admin_id = (True, s') \<longrightarrow>
      (\<exists>row. balance_history s' = balance_history s @ [row] \<and> h_user_id row = v \<and>
             h_change_amount row = real_of_text s a \<and> h_admin_id row = admin_id)) \<and>
   (modify_user_balance s v a admin_id = (False, s') \<longrightarrow> s' = s) \<and>
   balance_history (snd (update_user_balance s v a)) = balance_history s \<and>
   balance_history (snd (confirm_transaction s tx_id admin_id)) = balance_history s \<and>
   balance_history (snd (reject_transaction s tx_id admin_id reason)) = balance_history s \<and>
   balance_history (snd (reject_order s order_id admin_id)) = balance_history s"
proof (intro conjI impI)
  assume "list_all audited_call calls \<and> exact_run s calls \<and>
          replay_history (balance_history s) u = get_user_balance s u"
  then show "replay_history (balance_history (run_calls s calls)) u
               = get_user_balance (run_calls s calls) u"
    by (simp add: run_calls_def run_calls_audited)
next
  assume "modify_user_balance s v a admin_id = (True, s')"
  then show "\<exists>row. balance_history s' = balance_history s @ [row] \<and> h_user_id row = v \<and>
               h_change_amount row = real_of_text s a \<and> h_admin_id row = admin_id"
    by (auto simp: modify_user_balance_def Let_def split: option.splits if_splits)
next
  assume "modify_user_balance s v a admin_id = (False, s')"
  then show "s' = s"
    by (auto simp: modify_user_balance_def Let_def split: option.splits if_splits)
next
  show "balance_history (snd (update_user_balance s v a)) = balance_history s"
    by (simp add: update_user_balance_def split: option.splits)
next
  show "balance_history (snd (confirm_transaction s tx_id admin_id)) = balance_history s"
    by (simp add: confirm_transaction_def Let_def split: option.splits)
next
  show "balance_history (snd (reject_transaction s tx_id admin_id reason)) = balance_history s"
    by (simp add: reject_transaction_def Let_def split: option.splits)
next
  show "balance_history (snd (reject_order s order_id admin_id)) = balance_history s"
    by (simp add: reject_order_def Let_def split: option.splits)
qed

text \<open>
  Three adjustments by an admin around an order insertion: +700, -200, and -900, which
  is refused. The run is exact, the balance is 500 and the two history rows replay to it;
  the first call appends one row with the amount 700.
\<close>

theorem history_replays_modify_user_balance_witness:
  "list_all audited_call
     [Modify_user_balance 1 700 99, Create_order 1 ''game'' ''pubg'' ''ID123'' 200,
      Modify_user_balance 1 (- 200) 99, Modify_user_balance 1 (- 900) 99] \<and>
   exact_run example_db
     [Modify_user_balance 1 700 99, Create_order 1 ''game'' ''pubg'' ''ID123'' 200,
      Modify_user_balance 1 (- 200) 99, Modify_user_balance 1 (- 900) 99] \<and>
   replay_history (balance_history example_db) 1 = get_user_balance example_db 1 \<and>
   get_user_balance (run_calls example_db
     [Modify_user_balance 1 700 99, Create_order 1 ''game'' ''pubg'' ''ID123'' 200,
      Modify_user_balance 1 (- 200) 99, Modify_user_balance 1 (- 900) 99]) 1 = 500 \<and>
   replay_history (balance_history (run_calls example_db
     [Modify_user_balance 1 700 99, Create_order 1 ''game'' ''pubg'' ''ID123'' 200,
      Modify_user_balance 1 (- 200) 99, Modify_user_balance 1 (- 900) 99])) 1
   = get_user_balance (run_calls example_db
     [Modify_user_balance 1 700 99, Create_order 1 ''game'' ''pubg'' ''ID123'' 200,
      Modify_user_balance 1 (- 200) 99, Modify_user_balance 1 (- 900) 99]) 1 \<and>
   fst (modify_user_balance example_db 1 700 99) = True \<and>
   (\<exists>row. balance_history (snd (modify_user_balance example_db 1 700 99))
            = balance_history example_db @ [row] \<and>
          h_user_id row = 1 \<and> h_change_amount row = 700 \<and> h_admin_id row = 99)"
proof -
  let ?calls = "[Modify_user_balance 1 700 99, Create_order 1 ''game'' ''pubg'' ''ID123'' 200,
      Modify_user_balance 1 (- 200) 99, Modify_user_balance 1 (- 900) 99]"
  note defs = modify_user_balance_def create_order_def example_db_def get_user_balance_def
  have a: "list_all audited_call ?calls" by simp
  have x: "exact_run example_db ?calls"
    by (simp add: defs whole_exact reads_back)
  have b: "replay_history (balance_history example_db) 1 = get_user_balance example_db 1"
    by (simp add: replay_history_def example_db_def get_user_balance_def reads_back)
  have c: "get_user_balance (run_calls example_db ?calls) 1 = 500"
    by (simp add: run_calls_def defs whole_exact reads_back)
  have d: "replay_history (balance_history (run_calls example_db ?calls)) 1
             = get_user_balance (run_calls example_db ?calls) 1"
    by (rule history_replays_modify_user_balance
          [THEN conjunct1, THEN mp, OF conjI [OF a conjI [OF x b]]])
  have m: "modify_user_balance example_db 1 700 99
             = (True, snd (modify_user_balance example_db 1 700 99))"
    by (simp add: defs whole_exact reads_back)
  have f: "fst (modify_user_balance example_db 1 700 99) = True"
    by (simp add: defs whole_exact reads_back)
  have "\<exists>row. balance_history (snd (modify_user_balance example_db 1 700 99))
            = balance_history example_db @ [row] \<and>
          h_user_id row = 1 \<and> h_change_amount row = real_of_text example_db 700 \<and>
          h_admin_id row = 99"
    by (rule history_replays_modify_user_balance
          [THEN conjunct2, THEN conjunct1, THEN mp, OF m])
  then have r: "\<exists>row. balance_history (snd (modify_user_balance example_db 1 700 99))
            = balance_history example_db @ [row] \<and>
          h_user_id row = 1 \<and> h_change_amount row = 700 \<and> h_admin_id row = 99"
    by (simp add: example_db_def whole_exact)
  show ?thesis by (intro conjI a x b c d f r)
qed

section \<open>Top-up transactions\<close>

text \<open>
  C1. Rejecting the pending top-up \<^verbatim>\<open>TX1\<close> of 50000 of a user with balance 0:
  \<^verbatim>\<open>reject_transaction\<close> succeeds, the row is \<^verbatim>\<open>'rejected'\<close> with the reason, one
  \<^verbatim>\<open>admin_logs\<close> row is written, and the balance is 50000, not 0: the statement under
  \<^verbatim>\<open># Refund user balance\<close> credits an amount that was never debited.
\<close>

theorem reject_transaction_credits_balance:
  "fst (reject_transaction example_db ''TX1'' 99 ''no payment received'') = True \<and>
   get_user_balance example_db 1 = 0 \<and>
   get_user_balance
     (snd (reject_transaction example_db ''TX1'' 99 ''no payment received'')) 1 = 50000 \<and>
   map_option t_status (get_transaction
     (snd (reject_transaction example_db ''TX1'' 99 ''no payment received'')) ''TX1'')
     = Some ''rejected'' \<and>
   map_option t_reject_reason (get_transaction
     (snd (reject_transaction example_db ''TX1'' 99 ''no payment received'')) ''TX1'')
     = Some (Some ''no payment received'') \<and>
   admin_logs (snd (reject_transaction example_db ''TX1'' 99 ''no payment received''))
     = [\<lparr>l_admin_id = 99, l_action = ''reject_transaction'',
         l_details = Rejected_transaction ''TX1'' ''no payment received'',
         l_target_user_id = Some 1\<rparr>]"
  by (simp add: reject_transaction_def example_db_def example_tx_def get_user_balance_def
        get_transaction_def sql_plus_def whole_exact reads_back)

text \<open>
  The same for every transaction whose user has a row: a successful
  \<^verbatim>\<open>reject_transaction\<close> leaves the balance higher by the amount (when the sum is exact).
\<close>

lemma reject_transaction_adds_amount:
  assumes "get_transaction s tx_id = Some t"
    and "users s (t_user_id t) = Some b"
    and "sql_plus s b (py_decimal (t_amount t)) = b + t_amount t"
    and "0 \<le> b + t_amount t"
  shows "\<exists>s'. reject_transaction s tx_id admin_id reason = (True, s') \<and>
           users s' (t_user_id t) = Some (b + t_amount t) \<and>
           map_option t_status (get_transaction s' tx_id) = Some ''rejected''"
  using assms
  by (simp add: reject_transaction_def get_transaction_def map_of_update_tx Let_def)

text \<open>
  C2, as stated, fails: \<^verbatim>\<open>confirm_transaction\<close> does not read the status. Called twice
  on \<^verbatim>\<open>TX1\<close> it succeeds twice and credits 50000 twice.
\<close>

theorem confirm_transaction_twice_credits_twice:
  "fst (confirm_transaction example_db ''TX1'' 99) = True \<and>
   get_user_balance (snd (confirm_transaction example_db ''TX1'' 99)) 1 = 50000 \<and>
   fst (confirm_transaction (snd (confirm_transaction example_db ''TX1'' 99)) ''TX1'' 99)
     = True \<and>
   get_user_balance
     (snd (confirm_transaction (snd (confirm_transaction example_db ''TX1'' 99)) ''TX1'' 99)) 1
     = 100000"
  by (simp add: confirm_transaction_def example_db_def example_tx_def get_user_balance_def
        sql_plus_def whole_exact reads_back)

text \<open>
  C2, amended. The guard is in the handler \<^verbatim>\<open>confirm_payment\<close>, which reads the status
  with \<^verbatim>\<open>get_transaction\<close> before it calls \<^verbatim>\<open>confirm_transaction\<close>. Take a pending
  transaction whose id has no underscore (the handler takes the id from the button's
  data by \<^verbatim>\<open>split('_')[2]\<close>), whose user has a row, and for which the sum of balance and
  amount is computed exactly and is not negative. The first \<^verbatim>\<open>confirm_payment\<close> on its
  button credits the amount and completes the transaction; a second one, after the
  first, answers that the operation is already processed and leaves the store as it is.
\<close>

theorem confirm_payment_twice_credits_once:
  assumes "get_transaction s tx_id = Some t" and "t_status t = ''pending''"
    and "CHR ''_'' \<notin> set tx_id"
    and "users s (t_user_id t) = Some b"
    and "sql_plus s b (py_decimal (t_amount t)) = b + t_amount t"
    and "0 \<le> b + t_amount t"
  shows "\<exists>s'. confirm_payment s (confirm_button tx_id) admin_id = (Done, s') \<and>
           users s' (t_user_id t) = Some (b + t_amount t) \<and>
           map_option t_status (get_transaction s' tx_id) = Some ''completed'' \<and>
           confirm_payment s' (confirm_button tx_id) admin_id'
             = (Already_processed, s')"
proof -
  have arg: "callback_arg (confirm_button tx_id) = Some tx_id"
    using assms(3) by (rule callback_arg_confirm)
  show ?thesis
    using assms(1,2,4,5,6)
    by (simp add: confirm_payment_def arg confirm_transaction_def get_transaction_def
          map_of_update_tx Let_def)
qed

theorem confirm_payment_twice_credits_once_witness:
  "get_transaction example_db ''TX1'' = Some example_tx \<and>
   t_status example_tx = ''pending'' \<and>
   CHR ''_'' \<notin> set ''TX1'' \<and>
   users example_db (t_user_id example_tx) = Some 0 \<and>
   sql_plus example_db 0 (py_decimal (t_amount example_tx)) = 0 + t_amount example_tx \<and>
   (0::rat) \<le> 0 + t_amount example_tx \<and>
   (\<exists>s'. confirm_payment example_db (confirm_button ''TX1'') 99 = (Done, s') \<and>
         users s' (t_user_id example_tx) = Some (0 + t_amount example_tx) \<and>
         map_option t_status (get_transaction s' ''TX1'') = Some ''completed'' \<and>
         confirm_payment s' (confirm_button ''TX1'') 98 = (Already_processed, s'))"
proof -
  have h1: "get_transaction example_db ''TX1'' = Some example_tx"
    by (simp add: get_transaction_def example_db_def)
  have h2: "t_status example_tx = ''pending''"
    by (simp add: example_tx_def)
  have h3: "CHR ''_'' \<notin> set ''TX1''" by simp
  have h4: "users example_db (t_user_id example_tx) = Some 0"
    by (simp add: example_db_def example_tx_def)
  have h5: "sql_plus example_db 0 (py_decimal (t_amount example_tx)) = 0 + t_amount example_tx"
    by (simp add: sql_plus_def example_db_def example_tx_def whole_exact reads_back)
  have h6: "(0::rat) \<le> 0 + t_amount example_tx"
    by (simp add: example_tx_def)
  show ?thesis
    by (intro conjI h1 h2 h3 h4 h5 h6
          confirm_payment_twice_credits_once [OF h1 h2 h3 h4 h5 h6])
qed

text \<open>
  C7, as stated, fails: the pending \<^verbatim>\<open>TX1\<close>, created before the cut-off, is counted and
  is then no longer in the store; it is not kept with a terminal status.
\<close>

theorem cleanup_deletes_rows:
  "get_transaction example_sweep ''TX1'' = Some example_tx \<and>
   t_status example_tx = ''pending'' \<and>
   text_less (t_created_at example_tx) ''2024-01-02T10:00:00.000000'' \<and>
   fst (cleanup_expired_transactions example_sweep ''2024-01-02T10:00:00.000000'') = 1 \<and>
   get_transaction
     (snd (cleanup_expired_transactions example_sweep ''2024-01-02T10:00:00.000000'')) ''TX1''
     = None \<and>
   map fst (transactions
     (snd (cleanup_expired_transactions example_sweep ''2024-01-02T10:00:00.000000'')))
     = [''TX2'', ''TX3'']"
  by (simp add: cleanup_expired_transactions_def example_sweep_def example_tx_def
        get_transaction_def expired_pending_def)

text \<open>
  C7, amended. \<^verbatim>\<open>cleanup_expired_transactions\<close> deletes exactly the rows that are
  \<^verbatim>\<open>'pending'\<close> and whose \<^verbatim>\<open>created_at\<close> text compares below the text of the cut-off; it
  returns the number of rows it deleted; users, balances, balance history and orders are
  as before.
\<close>

theorem cleanup_expired_transactions_deletes:
  "set (transactions (snd (cleanup_expired_transactions s expiry_time)))
     = {row. row \<in> set (transactions s) \<and>
             \<not> (t_status (snd row) = ''pending'' \<and>
                text_less (t_created_at (snd row)) expiry_time)} \<and>
   fst (cleanup_expired_transactions s expiry_time)
     + length (transactions (snd (cleanup_expired_transactions s expiry_time)))
     = length (transactions s) \<and>
   users (snd (cleanup_expired_transactions s expiry_time)) = users s \<and>
   balance_history (snd (cleanup_expired_transactions s expiry_time)) = balance_history s \<and>
   orders (snd (cleanup_expired_transactions s expiry_time)) = orders s"
proof (intro conjI)
  show "set (transactions (snd (cleanup_expired_transactions s expiry_time)))
     = {row. row \<in> set (transactions s) \<and>
             \<not> (t_status (snd row) = ''pending'' \<and>
                text_less (t_created_at (snd row)) expiry_time)}"
    by (auto simp: cleanup_expired_transactions_def expired_pending_def Let_def)
next
  show "fst (cleanup_expired_transactions s expiry_time)
     + length (transactions (snd (cleanup_expired_transactions s expiry_time)))
     = length (transactions s)"
    by (simp add: cleanup_expired_transactions_def Let_def sum_length_filter_compl)
qed (simp_all add: cleanup_expired_transactions_def Let_def)

text \<open>
  The comparison is one of texts. \<^verbatim>\<open>CURRENT_TIMESTAMP\<close> writes a space between date and
  time, \<^verbatim>\<open>isoformat\<close> a \<^verbatim>\<open>T\<close>: a row of the cut-off's day compares below the cut-off
  whatever its time.
\<close>

lemma same_day_compares_below:
  "text_less ''2024-01-01 23:00:00'' ''2024-01-01T10:00:00.000000''"
  by simp

text \<open>
  C10, as stated, fails: a call without \<^verbatim>\<open>exchange_rate\<close> and \<^verbatim>\<open>original_currency\<close> that
  passes \<^verbatim>\<open>original_amount\<close> stores that value, not the settlement amount.
\<close>

theorem create_transaction_original_amount_kept:
  "[''original_amount'' \<mapsto> PyDecimal 5] ''exchange_rate'' = None \<and>
   [''original_amount'' \<mapsto> PyDecimal 5] ''original_currency'' = None \<and>
   fst (create_transaction example_db ''2024-01-05 08:00:00'' ''TX9'' 1 50000 ''crypto''
          None None [''original_amount'' \<mapsto> PyDecimal 5]) = True \<and>
   map_option t_amount (get_transaction
     (snd (create_transaction example_db ''2024-01-05 08:00:00'' ''TX9'' 1 50000 ''crypto''
          None None [''original_amount'' \<mapsto> PyDecimal 5])) ''TX9'') = Some 50000 \<and>
   map_option t_original_amount (get_transaction
     (snd (create_transaction example_db ''2024-01-05 08:00:00'' ''TX9'' 1 50000 ''crypto''
          None None [''original_amount'' \<mapsto> PyDecimal 5])) ''TX9'') = Some (PyDecimal 5)"
  by (simp add: create_transaction_def kwargs_get_def example_db_def get_transaction_def
        whole_exact)

text \<open>
  C10, amended. Each default belongs to its own keyword. When \<^verbatim>\<open>create_transaction\<close>
  stores a row, the row is pending with the settlement amount as the engine stores its
  text, and it has \<^verbatim>\<open>exchange_rate\<close> \<^verbatim>\<open>str(1)\<close> when no \<^verbatim>\<open>exchange_rate\<close> was passed,
  \<^verbatim>\<open>original_currency\<close> \<^verbatim>\<open>'SYP'\<close> when no \<^verbatim>\<open>original_currency\<close> was passed, and
  \<^verbatim>\<open>original_amount\<close> the text of the settlement amount when no \<^verbatim>\<open>original_amount\<close> was
  passed.
\<close>

theorem create_transaction_defaults:
  assumes "create_transaction s now tx_id user_id amount payment_method payment_subtype
             payment_number kwargs = (True, s')"
  shows "\<exists>row. get_transaction s' tx_id = Some row \<and>
           t_amount row = real_of_text s amount \<and>
           t_status row = ''pending'' \<and>
           (kwargs ''exchange_rate'' = None \<longrightarrow> t_exchange_rate row = PyInt 1) \<and>
           (kwargs ''original_currency'' = None \<longrightarrow>
              t_original_currency row = PyStr ''SYP'') \<and>
           (kwargs ''original_amount'' = None \<longrightarrow>
              t_original_amount row = PyDecimal amount)"
proof -
  from assms have "tx_id \<notin> fst ` set (transactions s)"
    by (auto simp: create_transaction_def Let_def split: if_splits)
  then have "map_of (transactions s) tx_id = None"
    by (simp add: map_of_eq_None_iff)
  with assms show ?thesis
    by (auto simp: create_transaction_def Let_def get_transaction_def kwargs_get_def
          map_add_def split: if_splits)
qed

theorem create_transaction_defaults_witness:
  "\<exists>s'. create_transaction example_db ''2024-01-05 08:00:00'' ''TX9'' 1 50000 ''syriatel''
           None None Map.empty = (True, s') \<and>
        (\<exists>row. get_transaction s' ''TX9'' = Some row \<and> t_amount row = 50000 \<and>
               t_status row = ''pending'' \<and>
               t_exchange_rate row = PyInt 1 \<and>
               t_original_currency row = PyStr ''SYP'' \<and>
               t_original_amount row = PyDecimal 50000)"
proof -
  have "\<exists>s'. create_transaction example_db ''2024-01-05 08:00:00'' ''TX9'' 1 50000
                ''syriatel'' None None Map.empty = (True, s')"
    by (simp add: create_transaction_def kwargs_get_def example_db_def)
  then obtain s' where c:
    "create_transaction example_db ''2024-01-05 08:00:00'' ''TX9'' 1 50000
       ''syriatel'' None None Map.empty = (True, s')"
    by blast
  have "\<exists>row. get_transaction s' ''TX9'' = Some row \<and> t_amount row = 50000 \<and>
           t_status row = ''pending'' \<and>
           t_exchange_rate row = PyInt 1 \<and>
           t_original_currency row = PyStr ''SYP'' \<and>
           t_original_amount row = PyDecimal 50000"
    using create_transaction_defaults [OF c] by (simp add: example_db_def whole_exact)
  with c show ?thesis by blast
qed

text \<open>
  A \<^verbatim>\<open>payment_details\<close> dictionary that holds a \<^verbatim>\<open>Decimal\<close> makes \<^verbatim>\<open>json.dumps\<close> raise: the
  call is rolled back and stores nothing.
\<close>

lemma create_transaction_decimal_details:
  assumes "(key, PyDecimal d) \<in> set details"
  shows "create_transaction s now tx_id user_id amount payment_method payment_subtype
           payment_number (kwargs(''payment_details'' \<mapsto> PyDict details)) = (False, s)"
proof -
  from assms have "\<not> json_dumps_ok (PyDict details)"
    by (force simp: list_all_iff)
  then show ?thesis
    by (simp add: create_transaction_def kwargs_get_def Let_def)
qed

section \<open>Orders\<close>

text \<open>
  C3, as stated, fails: \<^verbatim>\<open>_process_purchase\<close> inserts the order before it debits, each
  in a transaction of its own. For a user with no row (balance read as 0) and a price of
  0 the check passes and the order is inserted; the debit then updates no row and fails,
  and the pending order 2 stays in the store.
\<close>

theorem process_purchase_order_without_debit:
  "fst (process_purchase example_shop 77 ''game'' ''pubg'' ''ID9'' 0) = Debit_error \<and>
   get_order example_shop 2 = None \<and>
   map_option o_status (get_order
     (snd (process_purchase example_shop 77 ''game'' ''pubg'' ''ID9'' 0)) 2) = Some ''pending'' \<and>
   users (snd (process_purchase example_shop 77 ''game'' ''pubg'' ''ID9'' 0))
     = users example_shop"
  by (simp add: process_purchase_def create_order_def update_user_balance_def
        example_shop_def get_user_balance_def get_order_def)

text \<open>
  C3, amended. \<^verbatim>\<open>_process_purchase\<close> first compares the balance it reads with the price:
  when the balance is lower it answers that the balance is insufficient and the store is
  unchanged, with no order. Otherwise, for a product type of \<^verbatim>\<open>'game'\<close> or \<^verbatim>\<open>'app'\<close>, it
  inserts the pending order first and debits afterwards, in a second transaction: the new
  order is in the store whether the debit then succeeds or fails, and after a failed
  debit the balances are as before. For a user whose balance reads back as itself and
  holds at least the price, with an exact difference, the debit succeeds and the balance
  is lower by the price.
\<close>

theorem process_purchase_checks_orders_debits:
  "(get_user_balance s user < price \<longrightarrow>
      process_purchase s user product_type product_id game_id price
        = (Insufficient_balance, s)) \<and>
   (\<not> get_user_balance s user < price \<and>
    (product_type = ''game'' \<or> product_type = ''app'') \<longrightarrow>
      get_order (snd (process_purchase s user product_type product_id game_id price))
          (order_seq s + 1) =
        Some \<lparr>o_user_id = user, o_product_type = product_type,
              o_product_id = product_id, o_amount = game_id,
              o_price = real_of_text s price, o_status = ''pending''\<rparr> \<and>
      (fst (process_purchase s user product_type product_id game_id price)
         = Order_placed (order_seq s + 1) \<or>
       fst (process_purchase s user product_type product_id game_id price) = Debit_error \<and>
       users (snd (process_purchase s user product_type product_id game_id price))
         = users s)) \<and>
   (users s user = Some b \<and> py_decimal b = b \<and> price \<le> b \<and>
    sql_plus s b (decimal_context (- price)) = b - price \<and>
    (product_type = ''game'' \<or> product_type = ''app'') \<longrightarrow>
      (\<exists>s'. process_purchase s user product_type product_id game_id price
               = (Order_placed (order_seq s + 1), s') \<and>
            users s' user = Some (b - price)))"
  by (auto simp: process_purchase_def create_order_def update_user_balance_def
        get_user_balance_def get_order_def sql_plus_def Let_def split: option.splits)

text \<open>
  With balance 0 a purchase of 9500 is refused; with balance 10000, the scenario of the
  specification, it places order 1 and leaves 500.
\<close>

theorem process_purchase_checks_orders_debits_witness:
  "get_user_balance example_db 1 < 9500 \<and>
   process_purchase example_db 1 ''game'' ''pubg'' ''ID123'' 9500
     = (Insufficient_balance, example_db) \<and>
   \<not> get_user_balance example_funded 1 < 9500 \<and>
   get_order (snd (process_purchase example_funded 1 ''game'' ''pubg'' ''ID123'' 9500)) 1
     = Some example_order \<and>
   users example_funded 1 = Some 10000 \<and>
   py_decimal 10000 = 10000 \<and>
   (9500::rat) \<le> 10000 \<and>
   sql_plus example_funded 10000 (decimal_context (- 9500)) = 10000 - 9500 \<and>
   (\<exists>s'. process_purchase example_funded 1 ''game'' ''pubg'' ''ID123'' 9500
            = (Order_placed 1, s') \<and>
         users s' 1 = Some 500)"
proof -
  note T = process_purchase_checks_orders_debits
  have h1: "get_user_balance example_db 1 < 9500"
    by (simp add: get_user_balance_def example_db_def reads_back)
  have g: "\<not> get_user_balance example_funded 1 < 9500"
    by (simp add: get_user_balance_def example_funded_def reads_back)
  have h2: "users example_funded 1 = Some 10000"
    by (simp add: example_funded_def)
  have h3: "(9500::rat) \<le> 10000" by simp
  have h4: "''game'' = ''game'' \<or> ''game'' = ''app''" by simp
  have h5: "py_decimal 10000 = 10000" by (rule py_decimal_10000)
  have h6: "sql_plus example_funded 10000 (decimal_context (- 9500)) = 10000 - 9500"
    by (simp add: sql_plus_def example_funded_def example_db_def whole_exact)
  have a: "process_purchase example_db 1 ''game'' ''pubg'' ''ID123'' 9500
             = (Insufficient_balance, example_db)"
    by (rule T [THEN conjunct1, THEN mp, OF h1])
  have "get_order (snd (process_purchase example_funded 1 ''game'' ''pubg'' ''ID123'' 9500))
          (order_seq example_funded + 1) =
        Some \<lparr>o_user_id = 1, o_product_type = ''game'',
              o_product_id = ''pubg'', o_amount = ''ID123'',
              o_price = real_of_text example_funded 9500, o_status = ''pending''\<rparr>"
    by (rule T [THEN conjunct2, THEN conjunct1, THEN mp, OF conjI [OF g h4], THEN conjunct1])
  then have o: "get_order (snd (process_purchase example_funded 1 ''game'' ''pubg'' ''ID123'' 9500)) 1
                  = Some example_order"
    by (simp add: example_funded_def example_db_def example_order_def whole_exact)
  have "\<exists>s'. process_purchase example_funded 1 ''game'' ''pubg'' ''ID123'' 9500
            = (Order_placed (order_seq example_funded + 1), s') \<and>
         users s' 1 = Some (10000 - 9500)"
    by (rule T [THEN conjunct2, THEN conjunct2, THEN mp,
          OF conjI [OF h2 conjI [OF h5 conjI [OF h3 conjI [OF h6 h4]]]]])
  then have b: "\<exists>s'. process_purchase example_funded 1 ''game'' ''pubg'' ''ID123'' 9500
            = (Order_placed 1, s') \<and>
         users s' 1 = Some 500"
    by (simp add: example_funded_def example_db_def)
  show ?thesis by (intro conjI h1 a g o h2 h5 h3 h6 b)
qed

text \<open>
  C4, as stated, fails: \<^verbatim>\<open>Database.reject_order\<close> does not read the status. Called twice
  on the pending order of 9500 it succeeds twice and refunds twice: 500, 10000, 19500.
\<close>

theorem reject_order_twice_refunds_twice:
  "fst (reject_order example_shop 1 99) = True \<and>
   get_user_balance (snd (reject_order example_shop 1 99)) 1 = 10000 \<and>
   fst (reject_order (snd (reject_order example_shop 1 99)) 1 99) = True \<and>
   get_user_balance (snd (reject_order (snd (reject_order example_shop 1 99)) 1 99)) 1
     = 19500"
  by (simp add: reject_order_def example_shop_def example_order_def get_user_balance_def
        sql_plus_def whole_exact reads_back)

text \<open>
  C4, amended. The guard is in the handler \<^verbatim>\<open>PurchaseManager.reject_order\<close>, which reads
  the order with \<^verbatim>\<open>get_order\<close> before it calls \<^verbatim>\<open>Database.reject_order\<close>. For a pending
  order whose user has a row, and for which the sum of balance and price is computed
  exactly and is not negative, the first rejection through the handler refunds the price
  and marks the order rejected; a second one, after the first, answers that the order is
  already processed and leaves the store, so the balance, as it is.
\<close>

theorem purchase_reject_order_twice_refunds_once:
  assumes "get_order s order_id = Some ord" and "o_status ord = ''pending''"
    and "users s (o_user_id ord) = Some b"
    and "sql_plus s b (py_decimal (o_price ord)) = b + o_price ord"
    and "0 \<le> b + o_price ord"
  shows "\<exists>s'. purchase_reject_order s order_id admin_id = (Done, s') \<and>
           users s' (o_user_id ord) = Some (b + o_price ord) \<and>
           map_option o_status (get_order s' order_id) = Some ''rejected'' \<and>
           purchase_reject_order s' order_id admin_id' = (Already_processed, s')"
  using assms
  by (simp add: purchase_reject_order_def reject_order_def get_order_def Let_def)

theorem purchase_reject_order_twice_refunds_once_witness:
  "get_order example_shop 1 = Some example_order \<and>
   o_status example_order = ''pending'' \<and>
   users example_shop (o_user_id example_order) = Some 500 \<and>
   sql_plus example_shop 500 (py_decimal (o_price example_order))
     = 500 + o_price example_order \<and>
   (0::rat) \<le> 500 + o_price example_order \<and>
   (\<exists>s'. purchase_reject_order example_shop 1 99 = (Done, s') \<and>
         users s' (o_user_id example_order) = Some (500 + o_price example_order) \<and>
         map_option o_status (get_order s' 1) = Some ''rejected'' \<and>
         purchase_reject_order s' 1 98 = (Already_processed, s'))"
proof -
  have h1: "get_order example_shop 1 = Some example_order"
    by (simp add: get_order_def example_shop_def)
  have h2: "o_status example_order = ''pending''"
    by (simp add: example_order_def)
  have h3: "users example_shop (o_user_id example_order) = Some 500"
    by (simp add: example_shop_def example_order_def)
  have h4: "sql_plus example_shop 500 (py_decimal (o_price example_order))
              = 500 + o_price example_order"
    by (simp add: sql_plus_def example_shop_def example_order_def whole_exact reads_back)
  have h5: "(0::rat) \<le> 500 + o_price example_order"
    by (simp add: example_order_def)
  show ?thesis
    by (intro conjI h1 h2 h3 h4 h5
          purchase_reject_order_twice_refunds_once [OF h1 h2 h3 h4 h5])
qed

section \<open>Terminal states\<close>

text \<open>
  C8, as stated, fails: \<^verbatim>\<open>update_order_status\<close> writes the status it is given whatever
  the row holds. After \<^verbatim>\<open>confirm_order\<close> has completed order 1, a status update sets it
  back to \<^verbatim>\<open>'pending'\<close>.
\<close>

theorem update_order_status_overwrites_completed:
  "fst (confirm_order example_shop 1 99) = Done \<and>
   map_option o_status (get_order (snd (confirm_order example_shop 1 99)) 1)
     = Some ''completed'' \<and>
   fst (update_order_status (snd (confirm_order example_shop 1 99)) 1 ''pending'' 98) = True \<and>
   map_option o_status (get_order
     (snd (update_order_status (snd (confirm_order example_shop 1 99)) 1 ''pending'' 98)) 1)
     = Some ''pending''"
  by (simp add: confirm_order_def update_order_status_def status_allowed_def
        example_shop_def example_order_def get_order_def)

text \<open>
  C8, amended. The handlers \<^verbatim>\<open>confirm_payment\<close> (on the button of a transaction whose id
  has no underscore), \<^verbatim>\<open>confirm_order\<close> and \<^verbatim>\<open>PurchaseManager.reject_order\<close> read the
  status first: on a transaction or an order that is not \<^verbatim>\<open>'pending'\<close> they answer that it
  is already processed and leave the store as it is. The methods of \<^verbatim>\<open>Database\<close> they
  call have no such check. Every method of \<^verbatim>\<open>Database\<close> whose SQL sets no status, that is
  every writing method but \<^verbatim>\<open>confirm_transaction\<close>, \<^verbatim>\<open>reject_transaction\<close>,
  \<^verbatim>\<open>update_order_status\<close> and \<^verbatim>\<open>reject_order\<close>, leaves a transaction that is not pending
  and an order (with an id the counter has given out) exactly as they are.
\<close>

theorem handlers_leave_processed_unchanged:
  "(get_transaction s tx_id = Some t \<and> t_status t \<noteq> ''pending'' \<and> CHR ''_'' \<notin> set tx_id \<longrightarrow>
      confirm_payment s (confirm_button tx_id) admin_id = (Already_processed, s)) \<and>
   (get_order s order_id = Some ord \<and> o_status ord \<noteq> ''pending'' \<longrightarrow>
      confirm_order s order_id admin_id = (Already_processed, s) \<and>
      purchase_reject_order s order_id admin_id = (Already_processed, s)) \<and>
   (\<not> writes_status c \<and> get_transaction s tx_id = Some t \<and> t_status t \<noteq> ''pending'' \<longrightarrow>
      get_transaction (run_call s c) tx_id = Some t) \<and>
   (\<not> writes_status c \<and> get_order s order_id = Some ord \<and> order_id \<le> order_seq s \<longrightarrow>
      get_order (run_call s c) order_id = Some ord)"
proof (intro conjI impI)
  assume "get_transaction s tx_id = Some t \<and> t_status t \<noteq> ''pending'' \<and>
          CHR ''_'' \<notin> set tx_id"
  then show "confirm_payment s (confirm_button tx_id) admin_id = (Already_processed, s)"
    by (simp add: confirm_payment_def callback_arg_confirm)
next
  assume "get_order s order_id = Some ord \<and> o_status ord \<noteq> ''pending''"
  then show "confirm_order s order_id admin_id = (Already_processed, s)"
    and "purchase_reject_order s order_id admin_id = (Already_processed, s)"
    by (simp_all add: confirm_order_def purchase_reject_order_def)
next
  assume h: "\<not> writes_status c \<and> get_transaction s tx_id = Some t \<and>
             t_status t \<noteq> ''pending''"
  then have "\<not> expired_pending e (tx_id, t)" for e
    by (simp add: expired_pending_def)
  with h show "get_transaction (run_call s c) tx_id = Some t"
    by (cases c)
       (auto simp: get_transaction_def modify_user_balance_def update_user_balance_def
          create_order_def create_transaction_def cleanup_expired_transactions_def
          map_of_filter_keep Let_def
          split: option.splits)
next
  assume "\<not> writes_status c \<and> get_order s order_id = Some ord \<and> order_id \<le> order_seq s"
  then show "get_order (run_call s c) order_id = Some ord"
    by (cases c)
       (auto simp: get_order_def modify_user_balance_def update_user_balance_def
          create_order_def create_transaction_def cleanup_expired_transactions_def
          Let_def
          split: option.splits)
qed

text \<open>
  The completed \<^verbatim>\<open>TX3\<close> and the rejected order 1 are left alone by the three guarded
  handlers, by a clean-up and by the insertion of a new order.
\<close>

theorem handlers_leave_processed_unchanged_witness:
  "get_transaction example_sweep ''TX3'' = Some (example_tx\<lparr>t_status := ''completed''\<rparr>) \<and>
   t_status (example_tx\<lparr>t_status := ''completed''\<rparr>) \<noteq> ''pending'' \<and>
   CHR ''_'' \<notin> set ''TX3'' \<and>
   confirm_payment example_sweep (confirm_button ''TX3'') 99
     = (Already_processed, example_sweep) \<and>
   get_order example_closed_shop 1
     = Some (example_order\<lparr>o_status := ''rejected''\<rparr>) \<and>
   o_status (example_order\<lparr>o_status := ''rejected''\<rparr>) \<noteq> ''pending'' \<and>
   confirm_order example_closed_shop 1 99
     = (Already_processed, example_closed_shop) \<and>
   purchase_reject_order example_closed_shop 1 99
     = (Already_processed, example_closed_shop) \<and>
   \<not> writes_status (Cleanup_expired_transactions ''2024-01-02T10:00:00.250000'') \<and>
   get_transaction
     (run_call example_sweep (Cleanup_expired_transactions ''2024-01-02T10:00:00.250000''))
     ''TX3'' = Some (example_tx\<lparr>t_status := ''completed''\<rparr>) \<and>
   \<not> writes_status (Create_order 1 ''game'' ''pubg'' ''ID123'' 9500) \<and>
   (1::nat) \<le> order_seq example_closed_shop \<and>
   get_order (run_call example_closed_shop (Create_order 1 ''game'' ''pubg'' ''ID123'' 9500)) 1
     = Some (example_order\<lparr>o_status := ''rejected''\<rparr>)"
proof -
  note T = handlers_leave_processed_unchanged
  let ?shop = "example_closed_shop"
  let ?sweep = "Cleanup_expired_transactions ''2024-01-02T10:00:00.250000''"
  let ?ins = "Create_order 1 ''game'' ''pubg'' ''ID123'' 9500"
  have t1: "get_transaction example_sweep ''TX3'' = Some (example_tx\<lparr>t_status := ''completed''\<rparr>)"
    by (simp add: get_transaction_def example_sweep_def)
  have t2: "t_status (example_tx\<lparr>t_status := ''completed''\<rparr>) \<noteq> ''pending''" by simp
  have t3: "CHR ''_'' \<notin> set ''TX3''" by simp
  have o1: "get_order ?shop 1 = Some (example_order\<lparr>o_status := ''rejected''\<rparr>)"
    by (simp add: get_order_def example_closed_shop_def)
  have o2: "o_status (example_order\<lparr>o_status := ''rejected''\<rparr>) \<noteq> ''pending''" by simp
  have w1: "\<not> writes_status ?sweep" by simp
  have w2: "\<not> writes_status ?ins" by simp
  have q: "(1::nat) \<le> order_seq ?shop"
    by (simp add: example_closed_shop_def example_shop_def)
  have a: "confirm_payment example_sweep (confirm_button ''TX3'') 99
             = (Already_processed, example_sweep)"
    by (rule T [THEN conjunct1, THEN mp, OF conjI [OF t1 conjI [OF t2 t3]]])
  have b: "confirm_order ?shop 1 99 = (Already_processed, ?shop) \<and>
           purchase_reject_order ?shop 1 99 = (Already_processed, ?shop)"
    by (rule T [THEN conjunct2, THEN conjunct1, THEN mp, OF conjI [OF o1 o2]])
  have c: "get_transaction (run_call example_sweep ?sweep) ''TX3''
             = Some (example_tx\<lparr>t_status := ''completed''\<rparr>)"
    by (rule T [THEN conjunct2, THEN conjunct2, THEN conjunct1, THEN mp,
          OF conjI [OF w1 conjI [OF t1 t2]]])
  have d: "get_order (run_call ?shop ?ins) 1 = Some (example_order\<lparr>o_status := ''rejected''\<rparr>)"
    by (rule T [THEN conjunct2, THEN conjunct2, THEN conjunct2, THEN mp,
          OF conjI [OF w2 conjI [OF o1 q]]])
  show ?thesis
    by (intro conjI t1 t2 t3 a o1 o2 b [THEN conjunct1] b [THEN conjunct2] w1 c w2 q d)
qed

text \<open>
  \<^verbatim>\<open>handle_reject_reason\<close> is the one handler of the four without the check: it calls
  \<^verbatim>\<open>reject_transaction\<close> at once. A rejection whose reason arrives after another admin
  has confirmed \<^verbatim>\<open>TX1\<close> turns the completed transaction into a rejected one and credits
  the amount a second time.
\<close>

lemma handle_reject_reason_overwrites_completed:
  "fst (confirm_payment example_db (confirm_button ''TX1'') 99) = Done \<and>
   map_option t_status (get_transaction
      (snd (confirm_payment example_db (confirm_button ''TX1'') 99)) ''TX1'')
     = Some ''completed'' \<and>
   fst (handle_reject_reason
      (snd (confirm_payment example_db (confirm_button ''TX1'') 99)) ''TX1'' 98 ''late'')
     = Done \<and>
   map_option t_status (get_transaction
      (snd (handle_reject_reason
         (snd (confirm_payment example_db (confirm_button ''TX1'') 99)) ''TX1'' 98 ''late''))
      ''TX1'') = Some ''rejected'' \<and>
   get_user_balance
      (snd (handle_reject_reason
         (snd (confirm_payment example_db (confirm_button ''TX1'') 99)) ''TX1'' 98 ''late''))
      1 = 100000"
  by (simp add: confirm_payment_def callback_arg_confirm handle_reject_reason_def
        confirm_transaction_def reject_transaction_def example_db_def example_tx_def
        get_user_balance_def get_transaction_def sql_plus_def whole_exact reads_back)

text \<open>
  The id is cut at its first underscore: on the button of the pending \<^verbatim>\<open>TX_1\<close> the handler
  looks for \<^verbatim>\<open>TX\<close>.
\<close>

lemma callback_arg_cuts_at_underscore:
  "callback_arg (confirm_button ''TX_1'') = Some ''TX''"
  by (simp add: callback_arg_def confirm_button_def)

end
